theory Spec2Isabelle
  imports Main "HOL-Library.Word"
begin

unbundle bit_operations_syntax

section \<open>Data model of xlib.c\<close>

text \<open>
  Guile values (\<open>SCM\<close>) are either immediates or references to heap cells. A smob is a
  heap cell carrying a 16-bit type code (\<open>SCM_TYP16\<close>) and a pointer to its C struct;
  the four smob types of xlib.c are \<open>xdisplay_t\<close>, \<open>xscreen_t\<close>, \<open>xwindow_t\<close> and
  \<open>xgc_t\<close>. Pointers of Xlib (\<open>Display *\<close>, \<open>Screen *\<close>, \<open>GC\<close>) are natural numbers,
  0 being \<open>NULL\<close>; an \<open>XID\<close> is an \<open>unsigned long\<close> (64 bits on LP64), \<open>None\<close> being 0;
  the \<open>int state\<close> fields and the \<open>int expected\<close> masks are 32-bit words.
\<close>

type_synonym addr = nat
type_synonym Display = nat
type_synonym Screen = nat
type_synonym GC = nat
type_synonym XID = "64 word"

datatype scm =
    SCM_BOOL_F
  | SCM_BOOL_T
  | SCM_UNDEFINED
  | SCM_UNSPECIFIED
  | Fixnum int
  | Str string
  | Ref addr

record xdisplay_t =
  d_dsp :: Display
  d_state :: "32 word"
  d_gc :: scm

record xscreen_t =
  s_dsp :: scm
  s_scr :: Screen

record xwindow_t =
  w_dsp :: scm
  w_win :: XID
  w_state :: "32 word"

record xgc_t =
  g_dsp :: scm
  g_gc :: GC
  g_state :: "32 word"

abbreviation (input) XDISPLAY_STATE_OPEN :: "32 word" where "XDISPLAY_STATE_OPEN \<equiv> 1"
abbreviation (input) XDISPLAY_STATE_CLOSED :: "32 word" where "XDISPLAY_STATE_CLOSED \<equiv> 2"

abbreviation (input) XWINDOW_STATE_UNMAPPED :: "32 word" where "XWINDOW_STATE_UNMAPPED \<equiv> 1"
abbreviation (input) XWINDOW_STATE_MAPPED :: "32 word" where "XWINDOW_STATE_MAPPED \<equiv> 2"
abbreviation (input) XWINDOW_STATE_DESTROYED :: "32 word" where "XWINDOW_STATE_DESTROYED \<equiv> 4"
abbreviation (input) XWINDOW_STATE_THIRD_PARTY :: "32 word" where "XWINDOW_STATE_THIRD_PARTY \<equiv> 8"
abbreviation (input) XWINDOW_STATE_PIXMAP :: "32 word" where "XWINDOW_STATE_PIXMAP \<equiv> 16"

abbreviation (input) XGC_STATE_DEFAULT :: "32 word" where "XGC_STATE_DEFAULT \<equiv> 1"
abbreviation (input) XGC_STATE_CREATED :: "32 word" where "XGC_STATE_CREATED \<equiv> 2"
abbreviation (input) XGC_STATE_FREED :: "32 word" where "XGC_STATE_FREED \<equiv> 4"

abbreviation (input) SCM_ARGn :: nat where "SCM_ARGn \<equiv> 0"
abbreviation (input) SCM_ARG1 :: nat where "SCM_ARG1 \<equiv> 1"
abbreviation (input) SCM_ARG2 :: nat where "SCM_ARG2 \<equiv> 2"
abbreviation (input) SCM_ARG3 :: nat where "SCM_ARG3 \<equiv> 3"
abbreviation (input) SCM_ARG4 :: nat where "SCM_ARG4 \<equiv> 4"
abbreviation (input) SCM_ARG5 :: nat where "SCM_ARG5 \<equiv> 5"
abbreviation (input) SCM_ARG6 :: nat where "SCM_ARG6 \<equiv> 6"
abbreviation (input) SCM_ARG7 :: nat where "SCM_ARG7 \<equiv> 7"

text \<open>
  A heap cell. \<open>Free_cell\<close> is a cell whose type code is \<open>scm_tc_free_cell\<close>: the
  collector has reclaimed it (see the note on garbage collection at the top of xlib.c).
\<close>

datatype cell =
    Free_cell
  | Xdisplay (the_xdisplay: xdisplay_t)
  | Xscreen (the_xscreen: xscreen_t)
  | Xwindow (the_xwindow: xwindow_t)
  | Xgc (the_xgc: xgc_t)
  | Other_cell

datatype tc16 =
    scm_tc_free_cell
  | scm_tc16_xdisplay
  | scm_tc16_xscreen
  | scm_tc16_xwindow
  | scm_tc16_xgc
  | scm_tc_other

text \<open>
  The calls into Xlib that the modelled functions make, in the order of their arguments.
  \<open>XOpenDisplay\<close> is logged with the pointer it returned.
\<close>

datatype xcall =
    XOpenDisplay "string option" Display
  | XCloseDisplay Display
  | XMapWindow Display XID
  | XUnmapWindow Display XID
  | XDestroyWindow Display XID
  | XFreeGC Display GC
  | XCopyArea Display XID XID GC int int int int int int

text \<open>
  The errors libguile raises: \<open>scm_wrong_type_arg (func, pos, arg)\<close>,
  \<open>scm_misc_error (func, message, args)\<close> and \<open>scm_out_of_range\<close>.
\<close>

datatype error =
    Wrong_type_arg string nat scm
  | Misc_error string string "scm list"
  | Out_of_range string nat scm

text \<open>
  The state the functions of xlib.c read and write: the heap of cells (a new smob is
  appended, so its address is the length of the heap before), the global
  \<open>resource_id_hash\<close>, the log of Xlib calls, and the number of blocks obtained from
  \<open>scm_gc_malloc\<close> and not given back by \<open>scm_gc_free\<close>.
\<close>

record xstate =
  heap :: "cell list"
  resource_id_hash :: "int \<rightharpoonup> scm"
  calls :: "xcall list"
  gc_mallocated :: nat

definition cell_at :: "xstate \<Rightarrow> addr \<Rightarrow> cell" where
  "cell_at s a = (if a < length (heap s) then heap s ! a else Free_cell)"

definition SCM_NIMP :: "scm \<Rightarrow> bool" where
  "SCM_NIMP x = (case x of Ref a \<Rightarrow> True | _ \<Rightarrow> False)"

definition SCM_UNBNDP :: "scm \<Rightarrow> bool" where
  "SCM_UNBNDP x = (x = SCM_UNDEFINED)"

fun SCM2PTR :: "scm \<Rightarrow> addr" where
  "SCM2PTR (Ref a) = a"

text \<open>The type code of a value; reading it from an immediate gives no smob type.\<close>

definition SCM_TYP16 :: "xstate \<Rightarrow> scm \<Rightarrow> tc16" where
  "SCM_TYP16 s x =
     (case x of
        Ref a \<Rightarrow>
          (case cell_at s a of
             Free_cell \<Rightarrow> scm_tc_free_cell
           | Xdisplay d \<Rightarrow> scm_tc16_xdisplay
           | Xscreen sc \<Rightarrow> scm_tc16_xscreen
           | Xwindow w \<Rightarrow> scm_tc16_xwindow
           | Xgc g \<Rightarrow> scm_tc16_xgc
           | Other_cell \<Rightarrow> scm_tc_other)
      | _ \<Rightarrow> scm_tc_other)"

text \<open>
  \<open>SCM_SMOB_DATA\<close> cast to a struct type. The value is that of the struct for a cell of
  the type; for any other cell it is unspecified, as the memory the C code would read.
\<close>

definition XDISPLAY :: "xstate \<Rightarrow> scm \<Rightarrow> xdisplay_t" where
  "XDISPLAY s x = the_xdisplay (cell_at s (SCM2PTR x))"

definition XSCREEN :: "xstate \<Rightarrow> scm \<Rightarrow> xscreen_t" where
  "XSCREEN s x = the_xscreen (cell_at s (SCM2PTR x))"

definition XWINDOW :: "xstate \<Rightarrow> scm \<Rightarrow> xwindow_t" where
  "XWINDOW s x = the_xwindow (cell_at s (SCM2PTR x))"

definition XGC :: "xstate \<Rightarrow> scm \<Rightarrow> xgc_t" where
  "XGC s x = the_xgc (cell_at s (SCM2PTR x))"

text \<open>
  \<open>scm_from_int\<close> applied to an \<open>XID\<close>: the \<open>unsigned long\<close> is converted to \<open>int\<close>
  (its low 32 bits, read as two's complement) before it becomes a hash key.
\<close>

definition scm_from_int_XID :: "XID \<Rightarrow> int" where
  "scm_from_int_XID n = sint (ucast n :: 32 word)"

text \<open>\<open>scm_to_int\<close>: an exact integer that fits a C \<open>int\<close>, or an error.\<close>

definition scm_to_int :: "scm \<Rightarrow> error + int" where
  "scm_to_int x =
     (case x of
        Fixnum i \<Rightarrow>
          (if - (2 ^ 31) \<le> i \<and> i < 2 ^ 31 then Inr i else Inl (Out_of_range [] 0 x))
      | _ \<Rightarrow> Inl (Wrong_type_arg [] 0 x))"

text \<open>\<open>scm_to_uint\<close>: an exact integer that fits a C \<open>unsigned int\<close>, or an error.\<close>

definition scm_to_uint :: "scm \<Rightarrow> error + int" where
  "scm_to_uint x =
     (case x of
        Fixnum i \<Rightarrow>
          (if 0 \<le> i \<and> i < 2 ^ 32 then Inr i else Inl (Out_of_range [] 0 x))
      | _ \<Rightarrow> Inl (Wrong_type_arg [] 0 x))"

section \<open>State validators\<close>

text \<open>The \<open>switch (expected)\<close> of \<open>valid_dsp\<close>.\<close>

definition dsp_state_error :: "string \<Rightarrow> scm \<Rightarrow> 32 word \<Rightarrow> error" where
  "dsp_state_error func arg expected =
     (if expected = XDISPLAY_STATE_OPEN then Misc_error func ''Display ~S has been closed'' [arg]
      else Misc_error func ''Corrupt display state (~S)'' [Fixnum (sint expected)])"

text \<open>
  \<open>valid_dsp\<close> takes a display, or a screen, window or graphics context, whose display
  it then checks, and returns the display.
\<close>

definition valid_dsp :: "xstate \<Rightarrow> scm \<Rightarrow> nat \<Rightarrow> 32 word \<Rightarrow> string \<Rightarrow> error + scm" where
  "valid_dsp s arg pos expected func =
     (if \<not> SCM_NIMP arg then Inl (Wrong_type_arg func pos arg)
      else
        let arg1 =
              (if SCM_TYP16 s arg = scm_tc16_xscreen then s_dsp (XSCREEN s arg)
               else if SCM_TYP16 s arg = scm_tc16_xwindow then w_dsp (XWINDOW s arg)
               else if SCM_TYP16 s arg = scm_tc16_xgc then g_dsp (XGC s arg)
               else arg)
        in
          if SCM_TYP16 s arg1 \<noteq> scm_tc16_xdisplay then Inl (Wrong_type_arg func pos arg1)
          else if d_state (XDISPLAY s arg1) AND expected = 0
            then Inl (dsp_state_error func arg expected)
          else Inr arg1)"

text \<open>The \<open>switch (win->state)\<close> of \<open>valid_win\<close>.\<close>

definition win_state_error :: "string \<Rightarrow> scm \<Rightarrow> 32 word \<Rightarrow> error" where
  "win_state_error func arg st =
     (if st = XWINDOW_STATE_UNMAPPED then Misc_error func ''Window ~S is already unmapped'' [arg]
      else if st = XWINDOW_STATE_MAPPED then Misc_error func ''Window ~S is already mapped'' [arg]
      else if st = XWINDOW_STATE_DESTROYED then Misc_error func ''Window ~S has been destroyed'' [arg]
      else if st = XWINDOW_STATE_THIRD_PARTY then
        Misc_error func ''Window ~S belongs to a third party'' [arg]
      else if st = XWINDOW_STATE_PIXMAP then Misc_error func ''Window ~S is a pixmap'' [arg]
      else Misc_error func ''Corrupt window state (~S)'' [Fixnum (sint st)])"

text \<open>\<open>valid_win\<close> returns the \<open>xwindow_t *\<close>: here the address of the cell that holds it.\<close>

definition valid_win :: "xstate \<Rightarrow> scm \<Rightarrow> nat \<Rightarrow> 32 word \<Rightarrow> string \<Rightarrow> error + addr" where
  "valid_win s arg pos expected func =
     (if \<not> SCM_NIMP arg then Inl (Wrong_type_arg func pos arg)
      else if SCM_TYP16 s arg \<noteq> scm_tc16_xwindow then Inl (Wrong_type_arg func pos arg)
      else if w_state (XWINDOW s arg) AND expected = 0
        then Inl (win_state_error func arg (w_state (XWINDOW s arg)))
      else Inr (SCM2PTR arg))"

text \<open>The \<open>switch (gc1->state)\<close> of \<open>valid_gc\<close>.\<close>

definition gc_state_error :: "string \<Rightarrow> scm \<Rightarrow> 32 word \<Rightarrow> error" where
  "gc_state_error func arg st =
     (if st = XGC_STATE_DEFAULT then Misc_error func ''GC ~S is the default GC'' [arg]
      else if st = XGC_STATE_CREATED then Misc_error func ''GC ~S is a created GC'' [arg]
      else if st = XGC_STATE_FREED then Misc_error func ''GC ~S has been freed'' [arg]
      else Misc_error func ''Corrupt GC state (~S)'' [Fixnum (sint st)])"

definition valid_gc :: "xstate \<Rightarrow> scm \<Rightarrow> nat \<Rightarrow> 32 word \<Rightarrow> string \<Rightarrow> error + addr" where
  "valid_gc s arg pos expected func =
     (if \<not> SCM_NIMP arg then Inl (Wrong_type_arg func pos arg)
      else if SCM_TYP16 s arg \<noteq> scm_tc16_xgc then Inl (Wrong_type_arg func pos arg)
      else if g_state (XGC s arg) AND expected = 0
        then Inl (gc_state_error func arg (g_state (XGC s arg)))
      else Inr (SCM2PTR arg))"

section \<open>Displays\<close>

text \<open>
  \<open>x-close-display!\<close>. Every primitive returns its result, or the error it raised,
  together with the state it leaves behind.
\<close>

definition scm_x_close_display_x :: "scm \<Rightarrow> xstate \<Rightarrow> (error + scm) \<times> xstate" where
  "scm_x_close_display_x display s =
     (case valid_dsp s display SCM_ARG1 XDISPLAY_STATE_OPEN ''x-close-display!'' of
        Inl e \<Rightarrow> (Inl e, s)
      | Inr display1 \<Rightarrow>
          let dsp = XDISPLAY s display1 in
            (Inr SCM_UNSPECIFIED,
             s\<lparr>heap := (heap s)[SCM2PTR display1 :=
                         Xdisplay (dsp\<lparr>d_state := XDISPLAY_STATE_CLOSED\<rparr>)],
               calls := calls s @ [XCloseDisplay (d_dsp dsp)]\<rparr>))"

text \<open>The smob free hook of displays; it returns 0.\<close>

definition xdisplay_free :: "scm \<Rightarrow> xstate \<Rightarrow> (error + nat) \<times> xstate" where
  "xdisplay_free display s =
     (if d_state (XDISPLAY s display) = XDISPLAY_STATE_OPEN then
        (case scm_x_close_display_x display s of
           (Inl e, s') \<Rightarrow> (Inl e, s')
         | (Inr v, s') \<Rightarrow> (Inr 0, s'))
      else (Inr 0, s))"

text \<open>The smob mark hook of displays: the next object to mark is the cached default GC.\<close>

definition xdisplay_mark :: "scm \<Rightarrow> xstate \<Rightarrow> scm" where
  "xdisplay_mark display s = d_gc (XDISPLAY s display)"

text \<open>
  \<open>x-open-display!\<close>. The first argument is what \<open>XOpenDisplay\<close> returns. A host that is
  not a string is refused by \<open>scm_to_utf8_stringn\<close> (the \<open>SCM_ASSERT\<close> on \<open>scm_string_p\<close>
  tests a \<open>SCM\<close> value that is never zero).
\<close>

definition scm_x_open_display_x :: "Display \<Rightarrow> scm \<Rightarrow> xstate \<Rightarrow> (error + scm) \<times> xstate" where
  "scm_x_open_display_x native host s =
     (case (if SCM_UNBNDP host then Inr None
            else (case host of Str h \<Rightarrow> Inr (Some h) | _ \<Rightarrow> Inl (Wrong_type_arg [] 0 host))) of
        Inl e \<Rightarrow> (Inl e, s)
      | Inr dsparg \<Rightarrow>
          let s1 = s\<lparr>gc_mallocated := gc_mallocated s + 1\<rparr>;
              dsp = \<lparr>d_dsp = native, d_state = XDISPLAY_STATE_OPEN, d_gc = SCM_BOOL_F\<rparr>;
              s2 = s1\<lparr>calls := calls s1 @ [XOpenDisplay dsparg native]\<rparr>
          in
            if d_dsp dsp = 0 then
              (Inl (Misc_error ''x-open-display!'' ''Failed to open X display on ~S'' [host]),
               s2\<lparr>gc_mallocated := gc_mallocated s2 - 1\<rparr>)
            else
              (Inr (Ref (length (heap s2))), s2\<lparr>heap := heap s2 @ [Xdisplay dsp]\<rparr>))"

section \<open>Windows and pixmaps\<close>

definition scm_x_map_window_x :: "scm \<Rightarrow> xstate \<Rightarrow> (error + scm) \<times> xstate" where
  "scm_x_map_window_x window s =
     (case valid_dsp s window SCM_ARG1 XDISPLAY_STATE_OPEN ''x-map-window!'' of
        Inl e \<Rightarrow> (Inl e, s)
      | Inr display1 \<Rightarrow>
          (case valid_win s window SCM_ARG1 XWINDOW_STATE_UNMAPPED ''x-map-window!'' of
             Inl e \<Rightarrow> (Inl e, s)
           | Inr a \<Rightarrow>
               let dsp = XDISPLAY s display1; win = the_xwindow (cell_at s a) in
                 (Inr SCM_UNSPECIFIED,
                  s\<lparr>heap := (heap s)[a := Xwindow (win\<lparr>w_state := XWINDOW_STATE_MAPPED\<rparr>)],
                    calls := calls s @ [XMapWindow (d_dsp dsp) (w_win win)]\<rparr>)))"

definition scm_x_unmap_window_x :: "scm \<Rightarrow> xstate \<Rightarrow> (error + scm) \<times> xstate" where
  "scm_x_unmap_window_x window s =
     (case valid_dsp s window SCM_ARG1 XDISPLAY_STATE_OPEN ''x-unmap-window!'' of
        Inl e \<Rightarrow> (Inl e, s)
      | Inr display1 \<Rightarrow>
          (case valid_win s window SCM_ARG1 XWINDOW_STATE_MAPPED ''x-unmap-window!'' of
             Inl e \<Rightarrow> (Inl e, s)
           | Inr a \<Rightarrow>
               let dsp = XDISPLAY s display1; win = the_xwindow (cell_at s a) in
                 (Inr SCM_UNSPECIFIED,
                  s\<lparr>heap := (heap s)[a := Xwindow (win\<lparr>w_state := XWINDOW_STATE_UNMAPPED\<rparr>)],
                    calls := calls s @ [XUnmapWindow (d_dsp dsp) (w_win win)]\<rparr>)))"

definition scm_x_destroy_window_x :: "scm \<Rightarrow> xstate \<Rightarrow> (error + scm) \<times> xstate" where
  "scm_x_destroy_window_x window s =
     (case valid_dsp s window SCM_ARG1 XDISPLAY_STATE_OPEN ''x-destroy-window!'' of
        Inl e \<Rightarrow> (Inl e, s)
      | Inr display1 \<Rightarrow>
          (case valid_win s window SCM_ARG1
                  (NOT (XWINDOW_STATE_DESTROYED OR XWINDOW_STATE_THIRD_PARTY OR
                        XWINDOW_STATE_PIXMAP))
                  ''x-destroy-window!'' of
             Inl e \<Rightarrow> (Inl e, s)
           | Inr a \<Rightarrow>
               let dsp = XDISPLAY s display1; win = the_xwindow (cell_at s a) in
                 (Inr SCM_UNSPECIFIED,
                  s\<lparr>heap := (heap s)[a := Xwindow (win\<lparr>w_state := XWINDOW_STATE_DESTROYED\<rparr>)],
                    calls := calls s @ [XDestroyWindow (d_dsp dsp) (w_win win)]\<rparr>)))"

text \<open>The smob free hook of windows and pixmaps; it returns 0.\<close>

definition xwindow_free :: "scm \<Rightarrow> xstate \<Rightarrow> (error + nat) \<times> xstate" where
  "xwindow_free window s =
     (let win = XWINDOW s window in
        if SCM_TYP16 s (w_dsp win) = scm_tc16_xdisplay \<and>
           w_state win \<noteq> XWINDOW_STATE_DESTROYED \<and>
           w_state win \<noteq> XWINDOW_STATE_THIRD_PARTY
        then
          (case scm_x_destroy_window_x window s of
             (Inl e, s') \<Rightarrow> (Inl e, s')
           | (Inr v, s') \<Rightarrow> (Inr 0, s'))
        else (Inr 0, s))"

section \<open>Graphics contexts\<close>

definition scm_x_free_gc_x :: "scm \<Rightarrow> xstate \<Rightarrow> (error + scm) \<times> xstate" where
  "scm_x_free_gc_x gc s =
     (case valid_dsp s gc SCM_ARG1 XDISPLAY_STATE_OPEN ''x-free-gc!'' of
        Inl e \<Rightarrow> (Inl e, s)
      | Inr display1 \<Rightarrow>
          (case valid_gc s gc SCM_ARG1 XGC_STATE_CREATED ''x-free-gc!'' of
             Inl e \<Rightarrow> (Inl e, s)
           | Inr a \<Rightarrow>
               let dsp = XDISPLAY s display1; gc1 = the_xgc (cell_at s a) in
                 (Inr SCM_UNSPECIFIED,
                  s\<lparr>calls := calls s @ [XFreeGC (d_dsp dsp) (g_gc gc1)],
                    heap := (heap s)[a := Xgc (gc1\<lparr>g_state := XGC_STATE_FREED\<rparr>)]\<rparr>)))"

text \<open>The smob free hook of graphics contexts; it returns 0.\<close>

definition xgc_free :: "scm \<Rightarrow> xstate \<Rightarrow> (error + nat) \<times> xstate" where
  "xgc_free gc s =
     (let gc1 = XGC s gc in
        if SCM_TYP16 s (g_dsp gc1) = scm_tc16_xdisplay \<and> g_state gc1 = XGC_STATE_CREATED
        then
          (case scm_x_free_gc_x gc s of
             (Inl e, s') \<Rightarrow> (Inl e, s')
           | (Inr v, s') \<Rightarrow> (Inr 0, s'))
        else (Inr 0, s))"

text \<open>
  \<open>x-copy-area!\<close>. The display handed to \<open>XCopyArea\<close> is read from the source
  drawable: \<open>XDISPLAY (src->dsp)->dsp\<close>.
\<close>

definition scm_x_copy_area_x ::
  "scm \<Rightarrow> scm \<Rightarrow> scm \<Rightarrow> scm \<Rightarrow> scm \<Rightarrow> scm \<Rightarrow> scm \<Rightarrow> scm \<Rightarrow> scm \<Rightarrow> xstate \<Rightarrow> (error + scm) \<times> xstate" where
  "scm_x_copy_area_x source destination gc src_x src_y width height dst_x dst_y s =
     (case valid_win s source SCM_ARG1
             (XWINDOW_STATE_MAPPED OR XWINDOW_STATE_PIXMAP OR XWINDOW_STATE_THIRD_PARTY)
             ''x-copy-area!'' of
        Inl e \<Rightarrow> (Inl e, s)
      | Inr src \<Rightarrow>
     (case valid_win s destination SCM_ARG2
             (XWINDOW_STATE_MAPPED OR XWINDOW_STATE_PIXMAP OR XWINDOW_STATE_THIRD_PARTY)
             ''x-copy-area!'' of
        Inl e \<Rightarrow> (Inl e, s)
      | Inr dst \<Rightarrow>
     (case valid_gc s gc SCM_ARG3 (XGC_STATE_CREATED OR XGC_STATE_DEFAULT) ''x-copy-area!'' of
        Inl e \<Rightarrow> (Inl e, s)
      | Inr gc1 \<Rightarrow>
     (case scm_to_int src_x of Inl e \<Rightarrow> (Inl e, s) | Inr src_x1 \<Rightarrow>
     (case scm_to_int src_y of Inl e \<Rightarrow> (Inl e, s) | Inr src_y1 \<Rightarrow>
     (case scm_to_uint width of Inl e \<Rightarrow> (Inl e, s) | Inr width1 \<Rightarrow>
     (case scm_to_uint height of Inl e \<Rightarrow> (Inl e, s) | Inr height1 \<Rightarrow>
     (case scm_to_int dst_x of Inl e \<Rightarrow> (Inl e, s) | Inr dst_x1 \<Rightarrow>
     (case scm_to_int dst_y of Inl e \<Rightarrow> (Inl e, s) | Inr dst_y1 \<Rightarrow>
        (Inr SCM_UNSPECIFIED,
         s\<lparr>calls := calls s @
              [XCopyArea (d_dsp (XDISPLAY s (w_dsp (the_xwindow (cell_at s src)))))
                 (w_win (the_xwindow (cell_at s src)))
                 (w_win (the_xwindow (cell_at s dst)))
                 (g_gc (the_xgc (cell_at s gc1)))
                 src_x1 src_y1 width1 height1 dst_x1 dst_y1]\<rparr>))))))))))"

text \<open>
  What the macros and functions of Xlib that only read a display answer:
  \<open>ScreenCount\<close>, \<open>DefaultScreen\<close>, \<open>DefaultGC\<close> and \<open>XScreenNumberOfScreen\<close>.
\<close>

record xlib =
  ScreenCount :: "Display \<Rightarrow> int"
  DefaultScreen :: "Display \<Rightarrow> int"
  DefaultGC :: "Display \<Rightarrow> int \<Rightarrow> GC"
  XScreenNumberOfScreen :: "Screen \<Rightarrow> int"

text \<open>
  \<open>valid_scr\<close>. Its first check is \<open>SCM_ASSERT (scm_to_int (screen), screen, pos, func)\<close>:
  the asserted condition is the number itself.
\<close>

definition valid_scr ::
  "xlib \<Rightarrow> xstate \<Rightarrow> scm \<Rightarrow> scm \<Rightarrow> nat \<Rightarrow> xdisplay_t \<Rightarrow> string \<Rightarrow> error + int" where
  "valid_scr X s display screen pos dsp func =
     (if SCM_TYP16 s display = scm_tc16_xscreen
      then Inr (XScreenNumberOfScreen X (s_scr (XSCREEN s display)))
      else if \<not> SCM_UNBNDP screen then
        (case scm_to_int screen of
           Inl e \<Rightarrow> Inl e
         | Inr scr \<Rightarrow>
             if scr = 0 then Inl (Wrong_type_arg func pos screen)
             else if 0 \<le> scr \<and> scr < ScreenCount X (d_dsp dsp) then Inr scr
             else Inl (Out_of_range func SCM_ARG2 screen))
      else Inr (DefaultScreen X (d_dsp dsp)))"

text \<open>\<open>x-default-gc\<close>: the smob is created on the first call and cached in \<open>dsp->gc\<close>.\<close>

definition scm_x_default_gc :: "xlib \<Rightarrow> scm \<Rightarrow> scm \<Rightarrow> xstate \<Rightarrow> (error + scm) \<times> xstate" where
  "scm_x_default_gc X display screen s =
     (case valid_dsp s display SCM_ARG1 XDISPLAY_STATE_OPEN ''x-default-gc'' of
        Inl e \<Rightarrow> (Inl e, s)
      | Inr display1 \<Rightarrow>
          let dsp = XDISPLAY s display1 in
            (case valid_scr X s display screen SCM_ARG2 dsp ''x-default-gc'' of
               Inl e \<Rightarrow> (Inl e, s)
             | Inr scr \<Rightarrow>
                 if d_gc dsp = SCM_BOOL_F then
                   let gc1 = \<lparr>g_dsp = display1, g_gc = DefaultGC X (d_dsp dsp) scr,
                              g_state = XGC_STATE_DEFAULT\<rparr>;
                       new = Ref (length (heap s))
                   in
                     (Inr new,
                      s\<lparr>gc_mallocated := gc_mallocated s + 1,
                        heap := (heap s)[SCM2PTR display1 := Xdisplay (dsp\<lparr>d_gc := new\<rparr>)] @
                                [Xgc gc1]\<rparr>)
                 else (Inr (d_gc dsp), s)))"

section \<open>The resource id table\<close>

definition scm_hashq_ref :: "(int \<rightharpoonup> scm) \<Rightarrow> int \<Rightarrow> scm \<Rightarrow> scm" where
  "scm_hashq_ref table key dflt = (case table key of None \<Rightarrow> dflt | Some v \<Rightarrow> v)"

definition lookup_window :: "scm \<Rightarrow> XID \<Rightarrow> string \<Rightarrow> xstate \<Rightarrow> scm \<times> xstate" where
  "lookup_window display xid func s =
     (if xid = 0 then (SCM_BOOL_F, s)
      else
        let window = scm_hashq_ref (resource_id_hash s) (scm_from_int_XID xid) SCM_BOOL_F in
          if window = SCM_BOOL_F \<or> SCM_TYP16 s window \<noteq> scm_tc16_xwindow then
            let win = \<lparr>w_dsp = display, w_win = xid, w_state = XWINDOW_STATE_THIRD_PARTY\<rparr>;
                new = Ref (length (heap s))
            in
              (new,
               s\<lparr>gc_mallocated := gc_mallocated s + 1,
                 heap := heap s @ [Xwindow win],
                 resource_id_hash := (resource_id_hash s)(scm_from_int_XID xid \<mapsto> new)\<rparr>)
          else (window, s))"

section \<open>The collector and the native layer\<close>

text \<open>
  The free hooks \<open>init_xlib_core\<close> registers: displays, windows and graphics contexts have
  one, screens have none.
\<close>

definition smob_free :: "addr \<Rightarrow> xstate \<Rightarrow> (error + nat) \<times> xstate" where
  "smob_free a s =
     (case cell_at s a of
        Xdisplay d \<Rightarrow> xdisplay_free (Ref a) s
      | Xwindow w \<Rightarrow> xwindow_free (Ref a) s
      | Xgc g \<Rightarrow> xgc_free (Ref a) s
      | _ \<Rightarrow> (Inr 0, s))"

text \<open>
  The sweep of the collector over the unreachable cells, in the order it meets them, as
  the note on garbage collection in xlib.c describes it: the free hook of a cell runs,
  then the type code of the cell is set to \<open>scm_tc_free_cell\<close>. An error raised in a
  hook leaves the sweep.
\<close>

fun gc_sweep :: "addr list \<Rightarrow> xstate \<Rightarrow> (error + unit) \<times> xstate" where
  "gc_sweep [] s = (Inr (), s)"
| "gc_sweep (a # as) s =
     (case smob_free a s of
        (Inl e, s') \<Rightarrow> (Inl e, s')
      | (Inr v, s') \<Rightarrow> gc_sweep as (s'\<lparr>heap := (heap s')[a := Free_cell]\<rparr>))"

text \<open>
  The rule of Xlib that xlib.c guards: a display pointer is used only between the
  \<open>XOpenDisplay\<close> that returned it and its \<open>XCloseDisplay\<close>. \<open>native_call L c\<close> is the
  set of live display pointers after the call \<open>c\<close>, or \<open>None\<close> when \<open>c\<close> uses a pointer
  that is not live.
\<close>

definition native_call :: "Display set \<Rightarrow> xcall \<Rightarrow> Display set option" where
  "native_call L c =
     (case c of
        XOpenDisplay h p \<Rightarrow> Some (if p = 0 then L else insert p L)
      | XCloseDisplay p \<Rightarrow> if p \<in> L then Some (L - {p}) else None
      | XMapWindow p w \<Rightarrow> if p \<in> L then Some L else None
      | XUnmapWindow p w \<Rightarrow> if p \<in> L then Some L else None
      | XDestroyWindow p w \<Rightarrow> if p \<in> L then Some L else None
      | XFreeGC p g \<Rightarrow> if p \<in> L then Some L else None
      | XCopyArea p src dst g sx sy w h dx dy \<Rightarrow> if p \<in> L then Some L else None)"

primrec native_run :: "Display set \<Rightarrow> xcall list \<Rightarrow> Display set option" where
  "native_run L [] = Some L"
| "native_run L (c # cs) =
     (case native_call L c of None \<Rightarrow> None | Some L' \<Rightarrow> native_run L' cs)"

text \<open>The native pointers of the displays that \<open>valid_dsp\<close> accepts as open.\<close>

definition is_open_display :: "cell \<Rightarrow> bool" where
  "is_open_display c =
     (case c of Xdisplay d \<Rightarrow> d_state d AND XDISPLAY_STATE_OPEN \<noteq> 0 | _ \<Rightarrow> False)"

definition opens :: "cell list \<Rightarrow> Display list" where
  "opens h = map (\<lambda>c. d_dsp (the_xdisplay c)) (filter is_open_display h)"

definition open_displays :: "xstate \<Rightarrow> Display list" where
  "open_displays s = opens (heap s)"

text \<open>
  What the sweep keeps true of the live display pointers \<open>L\<close> of the native layer: two
  open display smobs never share a pointer, and the pointer of every open display smob is
  live.
\<close>

definition sweep_inv :: "Display set \<Rightarrow> xstate \<Rightarrow> bool" where
  "sweep_inv L s = (distinct (open_displays s) \<and> set (open_displays s) \<subseteq> L)"

section \<open>A session\<close>

text \<open>
  The state after a display was opened (cell 0), a window created (cell 1), a graphics
  context created (cell 2), a pixmap created (cell 3), and a second window created and
  mapped (cell 4).
\<close>

definition heap0 :: "cell list" where
  "heap0 =
     [Xdisplay \<lparr>d_dsp = 7, d_state = XDISPLAY_STATE_OPEN, d_gc = SCM_BOOL_F\<rparr>,
      Xwindow \<lparr>w_dsp = Ref 0, w_win = 42, w_state = XWINDOW_STATE_UNMAPPED\<rparr>,
      Xgc \<lparr>g_dsp = Ref 0, g_gc = 99, g_state = XGC_STATE_CREATED\<rparr>,
      Xwindow \<lparr>w_dsp = Ref 0, w_win = 43, w_state = XWINDOW_STATE_PIXMAP\<rparr>,
      Xwindow \<lparr>w_dsp = Ref 0, w_win = 44, w_state = XWINDOW_STATE_MAPPED\<rparr>]"

definition state0 :: xstate where
  "state0 =
     \<lparr>heap = heap0,
      resource_id_hash = [42 \<mapsto> Ref 1, 43 \<mapsto> Ref 3, 44 \<mapsto> Ref 4],
      calls = [XOpenDisplay None 7],
      gc_mallocated = 5\<rparr>"

text \<open>A server with two screens, screen 0 the default one.\<close>

definition xlib2 :: xlib where
  "xlib2 =
     \<lparr>ScreenCount = (\<lambda>p. 2), DefaultScreen = (\<lambda>p. 0),
      DefaultGC = (\<lambda>p scr. if scr = 0 then 100 else 101),
      XScreenNumberOfScreen = (\<lambda>sc. 0)\<rparr>"

text \<open>The session after \<open>x-close-display!\<close> on its display.\<close>

definition state1 :: xstate where
  "state1 =
     state0
       \<lparr>heap := (heap state0)
          [0 := Xdisplay \<lparr>d_dsp = 7, d_state = XDISPLAY_STATE_CLOSED, d_gc = SCM_BOOL_F\<rparr>],
        calls := [XOpenDisplay None 7, XCloseDisplay 7]\<rparr>"

text \<open>The session after \<open>x-default-gc\<close> on its display, the screen omitted.\<close>

definition state2 :: xstate where
  "state2 =
     state0
       \<lparr>heap :=
          [Xdisplay \<lparr>d_dsp = 7, d_state = XDISPLAY_STATE_OPEN, d_gc = Ref 5\<rparr>] @ tl heap0 @
          [Xgc \<lparr>g_dsp = Ref 0, g_gc = 100, g_state = XGC_STATE_DEFAULT\<rparr>],
        gc_mallocated := 6\<rparr>"

section \<open>Basic facts\<close>

lemma cell_at_in_heap: "cell_at s a = Xdisplay d \<Longrightarrow> a < length (heap s)"
  by (simp add: cell_at_def split: if_splits)

lemmas validators =
  valid_dsp_def dsp_state_error_def valid_win_def valid_gc_def SCM_NIMP_def SCM_TYP16_def
  XDISPLAY_def XWINDOW_def XGC_def XSCREEN_def cell_at_def

lemma SCM_TYP16_xdisplayD:
  "SCM_TYP16 s x = scm_tc16_xdisplay \<Longrightarrow>
     \<exists>a d. x = Ref a \<and> a < length (heap s) \<and> heap s ! a = Xdisplay d"
  by (cases x; cases "cell_at s (SCM2PTR x)")
     (auto simp: SCM_TYP16_def cell_at_def split: if_splits)

lemma SCM_TYP16_xwindowD:
  "SCM_TYP16 s x = scm_tc16_xwindow \<Longrightarrow>
     \<exists>a w. x = Ref a \<and> a < length (heap s) \<and> heap s ! a = Xwindow w"
  by (cases x; cases "cell_at s (SCM2PTR x)")
     (auto simp: SCM_TYP16_def cell_at_def split: if_splits)

lemma SCM_TYP16_xgcD:
  "SCM_TYP16 s x = scm_tc16_xgc \<Longrightarrow>
     \<exists>a g. x = Ref a \<and> a < length (heap s) \<and> heap s ! a = Xgc g"
  by (cases x; cases "cell_at s (SCM2PTR x)")
     (auto simp: SCM_TYP16_def cell_at_def split: if_splits)

lemma state0_cells:
  "cell_at state0 0 = Xdisplay \<lparr>d_dsp = 7, d_state = XDISPLAY_STATE_OPEN, d_gc = SCM_BOOL_F\<rparr>"
  "cell_at state0 1 = Xwindow \<lparr>w_dsp = Ref 0, w_win = 42, w_state = XWINDOW_STATE_UNMAPPED\<rparr>"
  "cell_at state0 2 = Xgc \<lparr>g_dsp = Ref 0, g_gc = 99, g_state = XGC_STATE_CREATED\<rparr>"
  "cell_at state0 3 = Xwindow \<lparr>w_dsp = Ref 0, w_win = 43, w_state = XWINDOW_STATE_PIXMAP\<rparr>"
  "cell_at state0 4 = Xwindow \<lparr>w_dsp = Ref 0, w_win = 44, w_state = XWINDOW_STATE_MAPPED\<rparr>"
  by (simp_all add: cell_at_def state0_def heap0_def)

lemma state0_display:
  "SCM_TYP16 state0 (Ref 0) = scm_tc16_xdisplay"
  "XDISPLAY state0 (Ref 0) = \<lparr>d_dsp = 7, d_state = XDISPLAY_STATE_OPEN, d_gc = SCM_BOOL_F\<rparr>"
  by (simp_all add: SCM_TYP16_def XDISPLAY_def state0_cells)

lemma state0_fields:
  "calls state0 = [XOpenDisplay None 7]"
  "length (heap state0) = 5"
  by (simp_all add: state0_def heap0_def)

section \<open>Closing a display\<close>

text \<open>
  Claim C5. \<open>x-close-display!\<close> on an open display succeeds, leaves the display
  \<open>XDISPLAY_STATE_CLOSED\<close> and calls \<open>XCloseDisplay\<close> once. A second
  \<open>x-close-display!\<close> on the same display raises "Display ~S has been closed" and
  leaves the state, hence the log of Xlib calls, as it was; so does the free hook of the
  closed display, which returns without an error.
\<close>

theorem close_display_idempotent_safe:
  assumes "cell_at s a = Xdisplay d" and "d_state d = XDISPLAY_STATE_OPEN"
  shows "\<exists>s'. scm_x_close_display_x (Ref a) s = (Inr SCM_UNSPECIFIED, s') \<and>
           cell_at s' a = Xdisplay (d\<lparr>d_state := XDISPLAY_STATE_CLOSED\<rparr>) \<and>
           calls s' = calls s @ [XCloseDisplay (d_dsp d)] \<and>
           scm_x_close_display_x (Ref a) s' =
             (Inl (Misc_error ''x-close-display!'' ''Display ~S has been closed'' [Ref a]), s') \<and>
           xdisplay_free (Ref a) s' = (Inr 0, s')"
proof -
  from assms(1) have len: "a < length (heap s)" by (rule cell_at_in_heap)
  show ?thesis
    using assms len
    by (simp add: scm_x_close_display_x_def xdisplay_free_def validators Let_def)
qed

theorem close_display_idempotent_safe_witness:
  "\<exists>s'. scm_x_close_display_x (Ref 0) state0 = (Inr SCM_UNSPECIFIED, s') \<and>
      calls s' = [XOpenDisplay None 7, XCloseDisplay 7] \<and>
      scm_x_close_display_x (Ref 0) s' =
        (Inl (Misc_error ''x-close-display!'' ''Display ~S has been closed'' [Ref 0]), s') \<and>
      xdisplay_free (Ref 0) s' = (Inr 0, s')"
  using close_display_idempotent_safe [OF state0_cells(1)] state0_fields
  by auto

section \<open>Freeing a graphics context\<close>

text \<open>
  Claim C7. When \<open>x-free-gc!\<close> succeeds, its argument is a graphics context whose state
  has the \<open>XGC_STATE_CREATED\<close> bit, that is, of the three states the code assigns, the
  created one; then \<open>XFreeGC\<close> is called and the state becomes \<open>XGC_STATE_FREED\<close>.
  When it raises an error, the state is unchanged, so nothing was called. On an open
  display a created context is freed, the default context is refused with "GC ~S is the
  default GC" and a freed one with "GC ~S has been freed".
\<close>

theorem free_gc_precondition:
  "(\<forall>v s'. scm_x_free_gc_x gc s = (Inr v, s') \<longrightarrow>
      (\<exists>a g. gc = Ref a \<and> cell_at s a = Xgc g \<and>
         g_state g AND XGC_STATE_CREATED \<noteq> 0 \<and>
         (g_state g = XGC_STATE_DEFAULT \<or> g_state g = XGC_STATE_CREATED \<or>
          g_state g = XGC_STATE_FREED \<longrightarrow> g_state g = XGC_STATE_CREATED) \<and>
         calls s' = calls s @ [XFreeGC (d_dsp (XDISPLAY s (g_dsp g))) (g_gc g)] \<and>
         cell_at s' a = Xgc (g\<lparr>g_state := XGC_STATE_FREED\<rparr>))) \<and>
   (\<forall>e s'. scm_x_free_gc_x gc s = (Inl e, s') \<longrightarrow> s' = s) \<and>
   (\<forall>a g. gc = Ref a \<and> cell_at s a = Xgc g \<and>
      SCM_TYP16 s (g_dsp g) = scm_tc16_xdisplay \<and>
      d_state (XDISPLAY s (g_dsp g)) = XDISPLAY_STATE_OPEN \<longrightarrow>
      (g_state g = XGC_STATE_CREATED \<longrightarrow>
         (\<exists>s'. scm_x_free_gc_x gc s = (Inr SCM_UNSPECIFIED, s'))) \<and>
      (g_state g = XGC_STATE_DEFAULT \<longrightarrow>
         scm_x_free_gc_x gc s =
           (Inl (Misc_error ''x-free-gc!'' ''GC ~S is the default GC'' [gc]), s)) \<and>
      (g_state g = XGC_STATE_FREED \<longrightarrow>
         scm_x_free_gc_x gc s =
           (Inl (Misc_error ''x-free-gc!'' ''GC ~S has been freed'' [gc]), s)))"
proof (intro conjI allI impI)
  fix v s' assume "scm_x_free_gc_x gc s = (Inr v, s')"
  then show "\<exists>a g. gc = Ref a \<and> cell_at s a = Xgc g \<and>
         g_state g AND XGC_STATE_CREATED \<noteq> 0 \<and>
         (g_state g = XGC_STATE_DEFAULT \<or> g_state g = XGC_STATE_CREATED \<or>
          g_state g = XGC_STATE_FREED \<longrightarrow> g_state g = XGC_STATE_CREATED) \<and>
         calls s' = calls s @ [XFreeGC (d_dsp (XDISPLAY s (g_dsp g))) (g_gc g)] \<and>
         cell_at s' a = Xgc (g\<lparr>g_state := XGC_STATE_FREED\<rparr>)"
    by (cases gc; cases "cell_at s (SCM2PTR gc)")
       (auto simp: scm_x_free_gc_x_def valid_gc_def valid_dsp_def SCM_NIMP_def SCM_TYP16_def
          XGC_def XDISPLAY_def Let_def cell_at_def split: sum.splits if_splits)
next
  fix e s' assume "scm_x_free_gc_x gc s = (Inl e, s')"
  then show "s' = s"
    by (auto simp: scm_x_free_gc_x_def Let_def split: sum.splits)
next
  fix a g
  assume h: "gc = Ref a \<and> cell_at s a = Xgc g \<and>
      SCM_TYP16 s (g_dsp g) = scm_tc16_xdisplay \<and>
      d_state (XDISPLAY s (g_dsp g)) = XDISPLAY_STATE_OPEN"
  { assume "g_state g = XGC_STATE_CREATED"
    with h show "\<exists>s'. scm_x_free_gc_x gc s = (Inr SCM_UNSPECIFIED, s')"
      by (auto simp: scm_x_free_gc_x_def valid_gc_def valid_dsp_def SCM_NIMP_def SCM_TYP16_def
          XGC_def XDISPLAY_def Let_def cell_at_def split: sum.splits if_splits) }
  { assume "g_state g = XGC_STATE_DEFAULT"
    with h show "scm_x_free_gc_x gc s =
           (Inl (Misc_error ''x-free-gc!'' ''GC ~S is the default GC'' [gc]), s)"
      by (auto simp: scm_x_free_gc_x_def valid_gc_def valid_dsp_def SCM_NIMP_def SCM_TYP16_def
          XGC_def XDISPLAY_def Let_def cell_at_def gc_state_error_def split: sum.splits if_splits) }
  { assume "g_state g = XGC_STATE_FREED"
    with h show "scm_x_free_gc_x gc s =
           (Inl (Misc_error ''x-free-gc!'' ''GC ~S has been freed'' [gc]), s)"
      by (auto simp: scm_x_free_gc_x_def valid_gc_def valid_dsp_def SCM_NIMP_def SCM_TYP16_def
          XGC_def XDISPLAY_def Let_def cell_at_def gc_state_error_def split: sum.splits if_splits) }
qed

theorem free_gc_precondition_witness:
  "\<exists>s'. scm_x_free_gc_x (Ref 2) state0 = (Inr SCM_UNSPECIFIED, s') \<and>
      calls s' = [XOpenDisplay None 7, XFreeGC 7 99] \<and>
      cell_at s' 2 = Xgc \<lparr>g_dsp = Ref 0, g_gc = 99, g_state = XGC_STATE_FREED\<rparr>"
proof -
  note t = free_gc_precondition [of "Ref 2" state0]
  from t state0_cells(3) state0_display
  obtain s' where r: "scm_x_free_gc_x (Ref 2) state0 = (Inr SCM_UNSPECIFIED, s')"
    by fastforce
  with t state0_cells(3) state0_display state0_fields show ?thesis
    by fastforce
qed

section \<open>Mapping and unmapping a window\<close>

text \<open>
  Claim C10. \<open>x-map-window!\<close> on an unmapped window and \<open>x-unmap-window!\<close> on a
  mapped window of an open display change, of the cells, only the cell of the window, and of
  that only the state field: the display reference and the window id stay, the cell
  of the owning display is the same, the heap keeps its length, and the resource id table
  is the same. The log of Xlib calls gains the one call.
\<close>

theorem map_unmap_frame:
  assumes "cell_at s a = Xwindow w"
    and "SCM_TYP16 s (w_dsp w) = scm_tc16_xdisplay"
    and "d_state (XDISPLAY s (w_dsp w)) = XDISPLAY_STATE_OPEN"
  shows "(w_state w = XWINDOW_STATE_UNMAPPED \<longrightarrow>
           (\<exists>s'. scm_x_map_window_x (Ref a) s = (Inr SCM_UNSPECIFIED, s') \<and>
              cell_at s' a = Xwindow (w\<lparr>w_state := XWINDOW_STATE_MAPPED\<rparr>) \<and>
              (\<forall>b. b \<noteq> a \<longrightarrow> cell_at s' b = cell_at s b) \<and>
              XDISPLAY s' (w_dsp w) = XDISPLAY s (w_dsp w) \<and>
              length (heap s') = length (heap s) \<and>
              resource_id_hash s' = resource_id_hash s \<and>
              gc_mallocated s' = gc_mallocated s \<and>
              calls s' = calls s @ [XMapWindow (d_dsp (XDISPLAY s (w_dsp w))) (w_win w)])) \<and>
         (w_state w = XWINDOW_STATE_MAPPED \<longrightarrow>
           (\<exists>s'. scm_x_unmap_window_x (Ref a) s = (Inr SCM_UNSPECIFIED, s') \<and>
              cell_at s' a = Xwindow (w\<lparr>w_state := XWINDOW_STATE_UNMAPPED\<rparr>) \<and>
              (\<forall>b. b \<noteq> a \<longrightarrow> cell_at s' b = cell_at s b) \<and>
              XDISPLAY s' (w_dsp w) = XDISPLAY s (w_dsp w) \<and>
              length (heap s') = length (heap s) \<and>
              resource_id_hash s' = resource_id_hash s \<and>
              gc_mallocated s' = gc_mallocated s \<and>
              calls s' = calls s @ [XUnmapWindow (d_dsp (XDISPLAY s (w_dsp w))) (w_win w)]))"
proof -
  from assms(1) have len: "a < length (heap s)" and ha: "heap s ! a = Xwindow w"
    by (simp_all add: cell_at_def split: if_splits)
  from SCM_TYP16_xdisplayD [OF assms(2)]
  obtain b d where b: "w_dsp w = Ref b" and hb: "heap s ! b = Xdisplay d"
    by blast
  from hb ha have ne: "b \<noteq> a"
    by auto
  show ?thesis
    using assms len ha b ne
    by (auto simp: scm_x_map_window_x_def scm_x_unmap_window_x_def validators Let_def)
qed

theorem map_unmap_frame_witness:
  "(\<exists>s'. scm_x_map_window_x (Ref 1) state0 = (Inr SCM_UNSPECIFIED, s') \<and>
      cell_at s' 1 = Xwindow \<lparr>w_dsp = Ref 0, w_win = 42, w_state = XWINDOW_STATE_MAPPED\<rparr> \<and>
      cell_at s' 0 = cell_at state0 0 \<and>
      resource_id_hash s' = resource_id_hash state0 \<and>
      calls s' = [XOpenDisplay None 7, XMapWindow 7 42]) \<and>
   (\<exists>s'. scm_x_unmap_window_x (Ref 4) state0 = (Inr SCM_UNSPECIFIED, s') \<and>
      cell_at s' 4 = Xwindow \<lparr>w_dsp = Ref 0, w_win = 44, w_state = XWINDOW_STATE_UNMAPPED\<rparr> \<and>
      cell_at s' 0 = cell_at state0 0 \<and>
      resource_id_hash s' = resource_id_hash state0 \<and>
      calls s' = [XOpenDisplay None 7, XUnmapWindow 7 44])"
proof -
  have "\<exists>s'. scm_x_map_window_x (Ref 1) state0 = (Inr SCM_UNSPECIFIED, s') \<and>
      cell_at s' 1 = Xwindow \<lparr>w_dsp = Ref 0, w_win = 42, w_state = XWINDOW_STATE_MAPPED\<rparr> \<and>
      cell_at s' 0 = cell_at state0 0 \<and>
      resource_id_hash s' = resource_id_hash state0 \<and>
      calls s' = [XOpenDisplay None 7, XMapWindow 7 42]"
    using map_unmap_frame [OF state0_cells(2)] state0_display state0_fields
    by fastforce
  moreover
  have "\<exists>s'. scm_x_unmap_window_x (Ref 4) state0 = (Inr SCM_UNSPECIFIED, s') \<and>
      cell_at s' 4 = Xwindow \<lparr>w_dsp = Ref 0, w_win = 44, w_state = XWINDOW_STATE_UNMAPPED\<rparr> \<and>
      cell_at s' 0 = cell_at state0 0 \<and>
      resource_id_hash s' = resource_id_hash state0 \<and>
      calls s' = [XOpenDisplay None 7, XUnmapWindow 7 44]"
    using map_unmap_frame [OF state0_cells(5)] state0_display state0_fields
    by fastforce
  ultimately show ?thesis by blast
qed

section \<open>Opening a display\<close>

text \<open>
  Claim C9. When \<open>XOpenDisplay\<close> returns \<open>NULL\<close>, \<open>x-open-display!\<close> raises an
  error, which for a host that is omitted or a string is "Failed to open X display on
  ~S"; the heap has no new cell, so no display smob exists; the block allocated for the
  \<open>xdisplay_t\<close> has been given back; and the resource id table is unchanged. When
  \<open>XOpenDisplay\<close> returns a display, the result is a new smob in state
  \<open>XDISPLAY_STATE_OPEN\<close> whose cached default GC is \<open>#f\<close>.
\<close>

theorem open_display_atomicity:
  "(\<forall>r s'. scm_x_open_display_x 0 host s = (r, s') \<longrightarrow>
      (\<exists>e. r = Inl e) \<and> heap s' = heap s \<and>
      resource_id_hash s' = resource_id_hash s \<and> gc_mallocated s' = gc_mallocated s) \<and>
   (host = SCM_UNDEFINED \<or> (\<exists>h. host = Str h) \<longrightarrow>
      fst (scm_x_open_display_x 0 host s) =
        Inl (Misc_error ''x-open-display!'' ''Failed to open X display on ~S'' [host])) \<and>
   (p \<noteq> 0 \<and> (host = SCM_UNDEFINED \<or> (\<exists>h. host = Str h)) \<longrightarrow>
      (\<exists>s'. scm_x_open_display_x p host s = (Inr (Ref (length (heap s))), s') \<and>
         heap s' = heap s @
           [Xdisplay \<lparr>d_dsp = p, d_state = XDISPLAY_STATE_OPEN, d_gc = SCM_BOOL_F\<rparr>] \<and>
         resource_id_hash s' = resource_id_hash s))"
  by (cases host) (auto simp: scm_x_open_display_x_def SCM_UNBNDP_def Let_def)

theorem open_display_atomicity_witness:
  "fst (scm_x_open_display_x 0 (Str ''host:0'') state0) =
     Inl (Misc_error ''x-open-display!'' ''Failed to open X display on ~S'' [Str ''host:0'']) \<and>
   heap (snd (scm_x_open_display_x 0 (Str ''host:0'') state0)) = heap state0 \<and>
   (\<exists>s'. scm_x_open_display_x 8 (Str ''host:0'') state0 = (Inr (Ref 5), s') \<and>
      heap s' = heap state0 @
        [Xdisplay \<lparr>d_dsp = 8, d_state = XDISPLAY_STATE_OPEN, d_gc = SCM_BOOL_F\<rparr>])"
  using open_display_atomicity [of "Str ''host:0''" state0 8] state0_fields
  by (cases "scm_x_open_display_x 0 (Str ''host:0'') state0") auto

section \<open>Looking up a resource id\<close>

text \<open>
  Claim C2. \<open>lookup_window\<close> returns \<open>#f\<close> for the id \<open>None\<close> and changes nothing.
  For another id, when the table holds under its key a reference to a cell that is a
  window smob, that reference is returned and nothing changes; otherwise a new smob is
  appended to the heap, in state \<open>XWINDOW_STATE_THIRD_PARTY\<close>, with the given display
  and the id, and stored in the table under the key. Two lookups of the same id, one
  after the other, return the same reference.
\<close>

theorem lookup_window_contract:
  "lookup_window d 0 func s = (SCM_BOOL_F, s) \<and>
   (n \<noteq> 0 \<longrightarrow>
      (\<forall>a w. resource_id_hash s (scm_from_int_XID n) = Some (Ref a) \<and> cell_at s a = Xwindow w \<longrightarrow>
         lookup_window d n func s = (Ref a, s)) \<and>
      (\<not> (\<exists>a w. resource_id_hash s (scm_from_int_XID n) = Some (Ref a) \<and>
              cell_at s a = Xwindow w) \<longrightarrow>
         (\<exists>s'. lookup_window d n func s = (Ref (length (heap s)), s') \<and>
            cell_at s (length (heap s)) = Free_cell \<and>
            heap s' = heap s @
              [Xwindow \<lparr>w_dsp = d, w_win = n, w_state = XWINDOW_STATE_THIRD_PARTY\<rparr>] \<and>
            resource_id_hash s' =
              (resource_id_hash s)(scm_from_int_XID n \<mapsto> Ref (length (heap s))) \<and>
            calls s' = calls s))) \<and>
   (\<forall>r1 s1 r2 s2 d' func'.
      lookup_window d n func s = (r1, s1) \<and> lookup_window d' n func' s1 = (r2, s2) \<longrightarrow>
      r2 = r1 \<and> s2 = s1)"
proof (intro conjI impI allI)
  show "lookup_window d 0 func s = (SCM_BOOL_F, s)"
    by (simp add: lookup_window_def)
next
  fix a w
  assume "n \<noteq> 0"
    and "resource_id_hash s (scm_from_int_XID n) = Some (Ref a) \<and> cell_at s a = Xwindow w"
  then show "lookup_window d n func s = (Ref a, s)"
    by (simp add: lookup_window_def scm_hashq_ref_def SCM_TYP16_def)
next
  assume n: "n \<noteq> 0"
    and no: "\<not> (\<exists>a w. resource_id_hash s (scm_from_int_XID n) = Some (Ref a) \<and>
              cell_at s a = Xwindow w)"
  let ?window = "scm_hashq_ref (resource_id_hash s) (scm_from_int_XID n) SCM_BOOL_F"
  have "?window = SCM_BOOL_F \<or> SCM_TYP16 s ?window \<noteq> scm_tc16_xwindow"
  proof (rule ccontr)
    assume "\<not> ?thesis"
    then have f: "?window \<noteq> SCM_BOOL_F" and t: "SCM_TYP16 s ?window = scm_tc16_xwindow"
      by simp_all
    from SCM_TYP16_xwindowD [OF t] obtain a w where
      "?window = Ref a" "a < length (heap s)" "heap s ! a = Xwindow w"
      by blast
    with no show False
      by (auto simp: scm_hashq_ref_def cell_at_def split: option.splits)
  qed
  with n show "\<exists>s'. lookup_window d n func s = (Ref (length (heap s)), s') \<and>
            cell_at s (length (heap s)) = Free_cell \<and>
            heap s' = heap s @
              [Xwindow \<lparr>w_dsp = d, w_win = n, w_state = XWINDOW_STATE_THIRD_PARTY\<rparr>] \<and>
            resource_id_hash s' =
              (resource_id_hash s)(scm_from_int_XID n \<mapsto> Ref (length (heap s))) \<and>
            calls s' = calls s"
    by (auto simp: lookup_window_def Let_def cell_at_def)
next
  fix r1 s1 r2 s2 d' func'
  assume h: "lookup_window d n func s = (r1, s1) \<and> lookup_window d' n func' s1 = (r2, s2)"
  show "r2 = r1" and "s2 = s1"
    using h
    by (auto simp: lookup_window_def Let_def scm_hashq_ref_def SCM_TYP16_def cell_at_def
        split: if_splits option.splits)
qed

theorem lookup_window_contract_witness:
  "lookup_window (Ref 0) 42 ''x-next-event!'' state0 = (Ref 1, state0) \<and>
   (\<exists>s'. lookup_window (Ref 0) 500 ''x-next-event!'' state0 = (Ref 5, s') \<and>
      heap s' = heap state0 @
        [Xwindow \<lparr>w_dsp = Ref 0, w_win = 500, w_state = XWINDOW_STATE_THIRD_PARTY\<rparr>] \<and>
      lookup_window (Ref 0) 500 ''x-next-event!'' s' = (Ref 5, s'))"
proof -
  have k: "scm_from_int_XID 42 = 42" "scm_from_int_XID 500 = 500"
    by (simp_all add: scm_from_int_XID_def)
  have h: "resource_id_hash state0 42 = Some (Ref 1)" "resource_id_hash state0 500 = None"
    by (simp_all add: state0_def)
  note t = lookup_window_contract [of "Ref 0" "''x-next-event!''" state0]
  have a: "lookup_window (Ref 0) 42 ''x-next-event!'' state0 = (Ref 1, state0)"
    using t [of 42] k h state0_cells(2) by simp
  obtain s' where s': "lookup_window (Ref 0) 500 ''x-next-event!'' state0 = (Ref 5, s')"
     "heap s' = heap state0 @
        [Xwindow \<lparr>w_dsp = Ref 0, w_win = 500, w_state = XWINDOW_STATE_THIRD_PARTY\<rparr>]"
    using t [of 500] k h state0_fields by auto
  obtain r2 s2 where r: "lookup_window (Ref 0) 500 ''x-next-event!'' s' = (r2, s2)"
    by (cases "lookup_window (Ref 0) 500 ''x-next-event!'' s'")
  with t [of 500] s' have "r2 = Ref 5 \<and> s2 = s'"
    by blast
  with a s' r show ?thesis
    by auto
qed

section \<open>Classification of state errors\<close>






section \<open>Releasing a pixmap\<close>

text \<open>
  Claim C4, as the code has it. On a drawable in state \<open>XWINDOW_STATE_PIXMAP\<close> of an
  open display, \<open>x-destroy-window!\<close> raises "Window ~S is a pixmap". Whatever its
  display, neither \<open>x-destroy-window!\<close> nor the free hook \<open>xwindow_free\<close> changes the
  state: no call of Xlib is made for a pixmap, \<open>XDestroyWindow\<close> in particular.
\<close>

theorem pixmap_release:
  assumes "cell_at s a = Xwindow w" and "w_state w = XWINDOW_STATE_PIXMAP"
  shows "(SCM_TYP16 s (w_dsp w) = scm_tc16_xdisplay \<and>
          d_state (XDISPLAY s (w_dsp w)) = XDISPLAY_STATE_OPEN \<longrightarrow>
            scm_x_destroy_window_x (Ref a) s =
              (Inl (Misc_error ''x-destroy-window!'' ''Window ~S is a pixmap'' [Ref a]), s)) \<and>
         snd (scm_x_destroy_window_x (Ref a) s) = s \<and>
         snd (xwindow_free (Ref a) s) = s"
proof -
  from assms(1) have len: "a < length (heap s)" and ha: "heap s ! a = Xwindow w"
    by (simp_all add: cell_at_def split: if_splits)
  have vw: "valid_win s (Ref a) SCM_ARG1
      (NOT (XWINDOW_STATE_DESTROYED OR XWINDOW_STATE_THIRD_PARTY OR XWINDOW_STATE_PIXMAP))
      ''x-destroy-window!'' =
      Inl (Misc_error ''x-destroy-window!'' ''Window ~S is a pixmap'' [Ref a])"
    using len ha assms(2)
    by (simp add: valid_win_def SCM_NIMP_def SCM_TYP16_def XWINDOW_def cell_at_def
        win_state_error_def)
  have d: "snd (scm_x_destroy_window_x (Ref a) s) = s"
    by (simp only: scm_x_destroy_window_x_def vw) (simp split: sum.splits)
  have f: "snd (xwindow_free (Ref a) s) = s"
    using d by (cases "scm_x_destroy_window_x (Ref a) s")
      (auto simp: xwindow_free_def Let_def split: sum.splits)
  have "SCM_TYP16 s (w_dsp w) = scm_tc16_xdisplay \<and>
          d_state (XDISPLAY s (w_dsp w)) = XDISPLAY_STATE_OPEN \<longrightarrow>
            scm_x_destroy_window_x (Ref a) s =
              (Inl (Misc_error ''x-destroy-window!'' ''Window ~S is a pixmap'' [Ref a]), s)"
    using len ha
    by (simp only: scm_x_destroy_window_x_def vw)
       (auto simp: valid_dsp_def SCM_NIMP_def SCM_TYP16_def
        XWINDOW_def cell_at_def split: sum.splits)
  with d f show ?thesis by blast
qed

theorem pixmap_release_witness:
  "scm_x_destroy_window_x (Ref 3) state0 =
     (Inl (Misc_error ''x-destroy-window!'' ''Window ~S is a pixmap'' [Ref 3]), state0) \<and>
   snd (xwindow_free (Ref 3) state0) = state0"
  using pixmap_release [OF state0_cells(4)] state0_display
  by simp

text \<open>
  Claim C4 as stated fails: releasing the pixmap of the session, by \<open>x-destroy-window!\<close>
  or by the free hook, adds no call to the log of Xlib calls, so no call that frees the
  pixmap is made (xlib.c has no call of \<open>XFreePixmap\<close>).
\<close>

theorem pixmap_release_counterexample:
  "w_state (XWINDOW state0 (Ref 3)) = XWINDOW_STATE_PIXMAP \<and>
   fst (scm_x_destroy_window_x (Ref 3) state0) =
     Inl (Misc_error ''x-destroy-window!'' ''Window ~S is a pixmap'' [Ref 3]) \<and>
   calls (snd (scm_x_destroy_window_x (Ref 3) state0)) = calls state0 \<and>
   calls (snd (xwindow_free (Ref 3) state0)) = calls state0"
  by (simp add: scm_x_destroy_window_x_def xwindow_free_def valid_dsp_def valid_win_def
      win_state_error_def SCM_NIMP_def SCM_TYP16_def XWINDOW_def XDISPLAY_def state0_cells
      Let_def)

section \<open>Copying between drawables of a closed display\<close>

lemma close0: "scm_x_close_display_x (Ref 0) state0 = (Inr SCM_UNSPECIFIED, state1)"
  by (simp add: scm_x_close_display_x_def valid_dsp_def SCM_NIMP_def state0_display state1_def state0_fields)

text \<open>
  Claim C3 fails for \<open>x-copy-area!\<close>, which never calls \<open>valid_dsp\<close>. In the session,
  after \<open>x-close-display!\<close> has closed the display, \<open>x-copy-area!\<close> from the pixmap
  to the mapped window raises no error and calls \<open>XCopyArea\<close> with the pointer of the
  closed display: the log then breaks the rule that a display pointer is not used after
  its \<open>XCloseDisplay\<close>.
\<close>

theorem copy_area_on_closed_display:
  "scm_x_close_display_x (Ref 0) state0 = (Inr SCM_UNSPECIFIED, state1) \<and>
   d_state (XDISPLAY state1 (Ref 0)) = XDISPLAY_STATE_CLOSED \<and>
   scm_x_copy_area_x (Ref 3) (Ref 4) (Ref 2)
       (Fixnum 0) (Fixnum 0) (Fixnum 10) (Fixnum 10) (Fixnum 0) (Fixnum 0) state1 =
     (Inr SCM_UNSPECIFIED,
      state1\<lparr>calls := [XOpenDisplay None 7, XCloseDisplay 7,
                         XCopyArea 7 43 44 99 0 0 10 10 0 0]\<rparr>) \<and>
   native_run {} [XOpenDisplay None 7, XCloseDisplay 7, XCopyArea 7 43 44 99 0 0 10 10 0 0] =
     None"
proof (intro conjI)
  show "scm_x_close_display_x (Ref 0) state0 = (Inr SCM_UNSPECIFIED, state1)"
    by (rule close0)
  show "d_state (XDISPLAY state1 (Ref 0)) = XDISPLAY_STATE_CLOSED"
    by (simp add: XDISPLAY_def cell_at_def state1_def state0_def heap0_def)
  show "scm_x_copy_area_x (Ref 3) (Ref 4) (Ref 2)
       (Fixnum 0) (Fixnum 0) (Fixnum 10) (Fixnum 10) (Fixnum 0) (Fixnum 0) state1 =
     (Inr SCM_UNSPECIFIED,
      state1\<lparr>calls := [XOpenDisplay None 7, XCloseDisplay 7,
                         XCopyArea 7 43 44 99 0 0 10 10 0 0]\<rparr>)"
    by (simp add: scm_x_copy_area_x_def valid_win_def valid_gc_def SCM_NIMP_def
      SCM_TYP16_def XWINDOW_def XGC_def XDISPLAY_def cell_at_def state1_def state0_def
      heap0_def scm_to_int_def scm_to_uint_def)
  show "native_run {} [XOpenDisplay None 7, XCloseDisplay 7, XCopyArea 7 43 44 99 0 0 10 10 0 0] =
     None"
    by (simp add: native_call_def)
qed

section \<open>The default graphics context and the screens\<close>

text \<open>
  Claim C6 fails on a display with two screens. Asked for screen 0 by its number,
  \<open>x-default-gc\<close> raises a wrong-type error, because \<open>valid_scr\<close> asserts that the
  number is not zero. Asked with the screen omitted, it creates the smob for the default
  GC of screen 0 and caches it; asked then for screen 1, it returns that same smob, whose
  \<open>GC\<close> is the default GC of screen 0 and not that of screen 1: the cache holds one
  smob for the display, not one for each screen.
\<close>

theorem default_gc_screens:
  "scm_x_default_gc xlib2 (Ref 0) (Fixnum 0) state0 =
     (Inl (Wrong_type_arg ''x-default-gc'' SCM_ARG2 (Fixnum 0)), state0) \<and>
   scm_x_default_gc xlib2 (Ref 0) SCM_UNDEFINED state0 = (Inr (Ref 5), state2) \<and>
   scm_x_default_gc xlib2 (Ref 0) (Fixnum 1) state2 = (Inr (Ref 5), state2) \<and>
   g_gc (XGC state2 (Ref 5)) = DefaultGC xlib2 7 0 \<and>
   DefaultGC xlib2 7 0 \<noteq> DefaultGC xlib2 7 1"
proof (intro conjI)
  show "scm_x_default_gc xlib2 (Ref 0) (Fixnum 0) state0 =
     (Inl (Wrong_type_arg ''x-default-gc'' SCM_ARG2 (Fixnum 0)), state0)"
    by (simp add: scm_x_default_gc_def valid_scr_def valid_dsp_def SCM_NIMP_def SCM_UNBNDP_def
      state0_display scm_to_int_def Let_def)
  show "scm_x_default_gc xlib2 (Ref 0) SCM_UNDEFINED state0 = (Inr (Ref 5), state2)"
    by (simp add: scm_x_default_gc_def valid_scr_def valid_dsp_def SCM_NIMP_def SCM_UNBNDP_def
      state0_display state0_fields Let_def xlib2_def state2_def)
       (simp add: state0_def heap0_def)
  show "scm_x_default_gc xlib2 (Ref 0) (Fixnum 1) state2 = (Inr (Ref 5), state2)"
    by (simp add: scm_x_default_gc_def valid_scr_def valid_dsp_def SCM_NIMP_def SCM_UNBNDP_def
      SCM_TYP16_def XDISPLAY_def cell_at_def state2_def state0_def heap0_def
      scm_to_int_def xlib2_def Let_def)
  show "g_gc (XGC state2 (Ref 5)) = DefaultGC xlib2 7 0"
    by (simp add: XGC_def cell_at_def state2_def state0_def heap0_def xlib2_def)
  show "DefaultGC xlib2 7 0 \<noteq> DefaultGC xlib2 7 1"
    by (simp add: xlib2_def)
qed

section \<open>Teardown ordering under the collector\<close>

text \<open>
  The pointers of the open displays under updates of one cell of the heap.
\<close>

lemma opens_append: "opens (xs @ ys) = opens xs @ opens ys"
  by (simp add: opens_def)

lemma opens_Cons:
  "opens (c # cs) = (if is_open_display c then d_dsp (the_xdisplay c) # opens cs else opens cs)"
  by (simp add: opens_def)

lemma opens_nth_mem:
  "a < length h \<Longrightarrow> is_open_display (h ! a) \<Longrightarrow> d_dsp (the_xdisplay (h ! a)) \<in> set (opens h)"
  by (auto simp: opens_def intro!: imageI)

lemma opens_update_closed:
  assumes "distinct (opens h)" and "\<not> is_open_display c"
  shows "distinct (opens (h[a := c])) \<and> set (opens (h[a := c])) \<subseteq> set (opens h) \<and>
         (a < length h \<and> is_open_display (h ! a) \<longrightarrow>
            d_dsp (the_xdisplay (h ! a)) \<notin> set (opens (h[a := c])))"
proof (cases "a < length h")
  case True
  then have h: "h = take a h @ h ! a # drop (Suc a) h"
    by (rule id_take_nth_drop)
  from True have u: "h[a := c] = take a h @ c # drop (Suc a) h"
    by (rule upd_conv_take_nth_drop)
  have o: "opens h = opens (take a h) @ opens (h ! a # drop (Suc a) h)"
    by (subst h) (simp only: opens_append)
  have o': "opens (h[a := c]) = opens (take a h) @ opens (drop (Suc a) h)"
    using assms(2) by (simp add: u opens_append opens_Cons)
  from assms(1) show ?thesis
    unfolding o o' by (auto simp: opens_Cons split: if_splits)
next
  case False
  then have "h[a := c] = h"
    by (simp add: list_update_beyond)
  with assms(1) False show ?thesis by simp
qed

lemma opens_update_same:
  assumes "a < length h" and "\<not> is_open_display (h ! a)" and "\<not> is_open_display c"
  shows "opens (h[a := c]) = opens h"
proof -
  from assms(1) have h: "h = take a h @ h ! a # drop (Suc a) h"
    by (rule id_take_nth_drop)
  from assms(1) have u: "h[a := c] = take a h @ c # drop (Suc a) h"
    by (rule upd_conv_take_nth_drop)
  have "opens h = opens (take a h) @ opens (h ! a # drop (Suc a) h)"
    by (subst h) (simp only: opens_append)
  with assms(2,3) show ?thesis
    by (simp add: u opens_append opens_Cons)
qed

text \<open>What the validators give when they accept.\<close>

lemma native_run_append:
  "native_run L (xs @ ys) =
     (case native_run L xs of None \<Rightarrow> None | Some L' \<Rightarrow> native_run L' ys)"
  by (induction xs arbitrary: L) (auto split: option.splits)

lemma valid_dsp_InrD:
  "valid_dsp s arg pos expected func = Inr display1 \<Longrightarrow>
     SCM_TYP16 s display1 = scm_tc16_xdisplay \<and> d_state (XDISPLAY s display1) AND expected \<noteq> 0"
  by (auto simp: valid_dsp_def Let_def split: if_splits)

lemma valid_dsp_open:
  assumes "valid_dsp s arg pos XDISPLAY_STATE_OPEN func = Inr display1"
  shows "\<exists>b. display1 = Ref b \<and> b < length (heap s) \<and> is_open_display (heap s ! b) \<and>
           XDISPLAY s display1 = the_xdisplay (heap s ! b)"
proof -
  from valid_dsp_InrD [OF assms]
  have t: "SCM_TYP16 s display1 = scm_tc16_xdisplay"
    and o: "d_state (XDISPLAY s display1) AND XDISPLAY_STATE_OPEN \<noteq> 0"
    by simp_all
  from SCM_TYP16_xdisplayD [OF t] obtain b d where
    b: "display1 = Ref b" "b < length (heap s)" "heap s ! b = Xdisplay d"
    by blast
  with o show ?thesis
    by (simp add: XDISPLAY_def cell_at_def is_open_display_def)
qed

lemma valid_win_InrD:
  "valid_win s arg pos expected func = Inr a \<Longrightarrow>
     arg = Ref a \<and> a < length (heap s) \<and> (\<exists>w. heap s ! a = Xwindow w)"
  by (auto simp: valid_win_def split: if_splits dest!: SCM_TYP16_xwindowD)

lemma valid_gc_InrD:
  "valid_gc s arg pos expected func = Inr a \<Longrightarrow>
     arg = Ref a \<and> a < length (heap s) \<and> (\<exists>g. heap s ! a = Xgc g)"
  by (auto simp: valid_gc_def split: if_splits dest!: SCM_TYP16_xgcD)

text \<open>
  Each release, and so each free hook, keeps \<open>sweep_inv\<close> and calls Xlib only with
  live display pointers.
\<close>

lemma close_step:
  assumes inv: "sweep_inv L s" and r: "scm_x_close_display_x display s = (r, s')"
  shows "\<exists>cs L'. calls s' = calls s @ cs \<and> native_run L cs = Some L' \<and> sweep_inv L' s'"
proof (cases "valid_dsp s display SCM_ARG1 XDISPLAY_STATE_OPEN ''x-close-display!''")
  case (Inl e)
  with r have "s' = s" by (simp add: scm_x_close_display_x_def)
  with inv have "calls s' = calls s @ [] \<and> native_run L [] = Some L \<and> sweep_inv L s'"
    by simp
  then show ?thesis by blast
next
  case (Inr display1)
  from valid_dsp_open [OF Inr] obtain b where
    b: "display1 = Ref b" "b < length (heap s)" "is_open_display (heap s ! b)"
       "XDISPLAY s display1 = the_xdisplay (heap s ! b)"
    by blast
  let ?d = "the_xdisplay (heap s ! b)"
  let ?c = "Xdisplay (?d\<lparr>d_state := XDISPLAY_STATE_CLOSED\<rparr>)"
  from r Inr b have s': "s' = s\<lparr>heap := (heap s)[b := ?c], calls := calls s @ [XCloseDisplay (d_dsp ?d)]\<rparr>"
    by (simp add: scm_x_close_display_x_def Let_def)
  have nc: "\<not> is_open_display ?c"
    by (simp add: is_open_display_def)
  from inv have d: "distinct (opens (heap s))" and sub: "set (opens (heap s)) \<subseteq> L"
    by (simp_all add: sweep_inv_def open_displays_def)
  from opens_nth_mem [OF b(2,3)] sub have pin: "d_dsp ?d \<in> L"
    by blast
  from opens_update_closed [OF d nc, of b] b(2,3) sub
  have "sweep_inv (L - {d_dsp ?d}) s'"
    by (auto simp: sweep_inv_def open_displays_def s')
  with pin s' have "calls s' = calls s @ [XCloseDisplay (d_dsp ?d)] \<and>
      native_run L [XCloseDisplay (d_dsp ?d)] = Some (L - {d_dsp ?d}) \<and>
      sweep_inv (L - {d_dsp ?d}) s'"
    by (simp add: native_call_def)
  then show ?thesis by blast
qed

lemma destroy_step:
  assumes inv: "sweep_inv L s" and r: "scm_x_destroy_window_x window s = (r, s')"
  shows "\<exists>cs L'. calls s' = calls s @ cs \<and> native_run L cs = Some L' \<and> sweep_inv L' s'"
proof -
  let ?mask = "NOT (XWINDOW_STATE_DESTROYED OR XWINDOW_STATE_THIRD_PARTY OR XWINDOW_STATE_PIXMAP)"
  have same: "s' = s \<Longrightarrow> ?thesis"
  proof -
    assume "s' = s"
    with inv have "calls s' = calls s @ [] \<and> native_run L [] = Some L \<and> sweep_inv L s'"
      by simp
    then show ?thesis by blast
  qed
  show ?thesis
  proof (cases "valid_dsp s window SCM_ARG1 XDISPLAY_STATE_OPEN ''x-destroy-window!''")
    case (Inl e)
    with r have "s' = s" by (simp add: scm_x_destroy_window_x_def)
    then show ?thesis by (rule same)
  next
    case (Inr display1)
    show ?thesis
    proof (cases "valid_win s window SCM_ARG1 ?mask ''x-destroy-window!''")
      case (Inl e)
      with r Inr have "s' = s" by (simp only: scm_x_destroy_window_x_def) simp
      then show ?thesis by (rule same)
    next
      case a: (Inr a)
      from valid_dsp_open [OF Inr] obtain b where
        b: "display1 = Ref b" "b < length (heap s)" "is_open_display (heap s ! b)"
           "XDISPLAY s display1 = the_xdisplay (heap s ! b)"
        by blast
      from valid_win_InrD [OF a] obtain w where
        w: "a < length (heap s)" "heap s ! a = Xwindow w"
        by blast
      let ?d = "the_xdisplay (heap s ! b)"
      let ?c = "Xwindow (w\<lparr>w_state := XWINDOW_STATE_DESTROYED\<rparr>)"
      from r Inr a b w have s': "s' = s\<lparr>heap := (heap s)[a := ?c],
          calls := calls s @ [XDestroyWindow (d_dsp ?d) (w_win w)]\<rparr>"
        by (simp only: scm_x_destroy_window_x_def) (simp add: Let_def cell_at_def)
      from inv have d: "distinct (opens (heap s))" and sub: "set (opens (heap s)) \<subseteq> L"
        by (simp_all add: sweep_inv_def open_displays_def)
      from opens_nth_mem [OF b(2,3)] sub have pin: "d_dsp ?d \<in> L"
        by blast
      have "opens ((heap s)[a := ?c]) = opens (heap s)"
        using w by (intro opens_update_same) (simp_all add: is_open_display_def)
      with inv have "sweep_inv L s'"
        by (simp add: sweep_inv_def open_displays_def s')
      with pin s' have "calls s' = calls s @ [XDestroyWindow (d_dsp ?d) (w_win w)] \<and>
          native_run L [XDestroyWindow (d_dsp ?d) (w_win w)] = Some L \<and> sweep_inv L s'"
        by (simp add: native_call_def)
      then show ?thesis by blast
    qed
  qed
qed

lemma free_gc_step:
  assumes inv: "sweep_inv L s" and r: "scm_x_free_gc_x gc s = (r, s')"
  shows "\<exists>cs L'. calls s' = calls s @ cs \<and> native_run L cs = Some L' \<and> sweep_inv L' s'"
proof -
  have same: "s' = s \<Longrightarrow> ?thesis"
  proof -
    assume "s' = s"
    with inv have "calls s' = calls s @ [] \<and> native_run L [] = Some L \<and> sweep_inv L s'"
      by simp
    then show ?thesis by blast
  qed
  show ?thesis
  proof (cases "valid_dsp s gc SCM_ARG1 XDISPLAY_STATE_OPEN ''x-free-gc!''")
    case (Inl e)
    with r have "s' = s" by (simp add: scm_x_free_gc_x_def)
    then show ?thesis by (rule same)
  next
    case (Inr display1)
    show ?thesis
    proof (cases "valid_gc s gc SCM_ARG1 XGC_STATE_CREATED ''x-free-gc!''")
      case (Inl e)
      with r Inr have "s' = s" by (simp add: scm_x_free_gc_x_def)
      then show ?thesis by (rule same)
    next
      case a: (Inr a)
      from valid_dsp_open [OF Inr] obtain b where
        b: "display1 = Ref b" "b < length (heap s)" "is_open_display (heap s ! b)"
           "XDISPLAY s display1 = the_xdisplay (heap s ! b)"
        by blast
      from valid_gc_InrD [OF a] obtain g where
        g: "a < length (heap s)" "heap s ! a = Xgc g"
        by blast
      let ?d = "the_xdisplay (heap s ! b)"
      let ?c = "Xgc (g\<lparr>g_state := XGC_STATE_FREED\<rparr>)"
      from r Inr a b g have s': "s' = s\<lparr>calls := calls s @ [XFreeGC (d_dsp ?d) (g_gc g)],
          heap := (heap s)[a := ?c]\<rparr>"
        by (simp add: scm_x_free_gc_x_def Let_def cell_at_def)
      from inv have d: "distinct (opens (heap s))" and sub: "set (opens (heap s)) \<subseteq> L"
        by (simp_all add: sweep_inv_def open_displays_def)
      from opens_nth_mem [OF b(2,3)] sub have pin: "d_dsp ?d \<in> L"
        by blast
      have "opens ((heap s)[a := ?c]) = opens (heap s)"
        using g by (intro opens_update_same) (simp_all add: is_open_display_def)
      with inv have "sweep_inv L s'"
        by (simp add: sweep_inv_def open_displays_def s')
      with pin s' have "calls s' = calls s @ [XFreeGC (d_dsp ?d) (g_gc g)] \<and>
          native_run L [XFreeGC (d_dsp ?d) (g_gc g)] = Some L \<and> sweep_inv L s'"
        by (simp add: native_call_def)
      then show ?thesis by blast
    qed
  qed
qed

lemma smob_free_step:
  assumes inv: "sweep_inv L s" and r: "smob_free a s = (r, s')"
  shows "\<exists>cs L'. calls s' = calls s @ cs \<and> native_run L cs = Some L' \<and> sweep_inv L' s'"
proof -
  have same: "s' = s \<Longrightarrow> ?thesis"
  proof -
    assume "s' = s"
    with inv have "calls s' = calls s @ [] \<and> native_run L [] = Some L \<and> sweep_inv L s'"
      by simp
    then show ?thesis by blast
  qed
  show ?thesis
  proof (cases "cell_at s a")
    case (Xdisplay d)
    with r have f: "xdisplay_free (Ref a) s = (r, s')"
      by (simp add: smob_free_def)
    show ?thesis
    proof (cases "d_state (XDISPLAY s (Ref a)) = XDISPLAY_STATE_OPEN")
      case True
      obtain r1 s1 where c: "scm_x_close_display_x (Ref a) s = (r1, s1)"
        by (cases "scm_x_close_display_x (Ref a) s")
      with f True have "s1 = s'"
        by (auto simp: xdisplay_free_def split: sum.splits)
      with close_step [OF inv c] show ?thesis by simp
    next
      case False
      with f have "s' = s" by (simp add: xdisplay_free_def)
      then show ?thesis by (rule same)
    qed
  next
    case (Xwindow w)
    with r have f: "xwindow_free (Ref a) s = (r, s')"
      by (simp add: smob_free_def)
    obtain r1 s1 where c: "scm_x_destroy_window_x (Ref a) s = (r1, s1)"
      by (cases "scm_x_destroy_window_x (Ref a) s")
    with f have "s' = s \<or> s' = s1"
      by (auto simp: xwindow_free_def Let_def split: if_splits sum.splits)
    with destroy_step [OF inv c] same show ?thesis by blast
  next
    case (Xgc g)
    with r have f: "xgc_free (Ref a) s = (r, s')"
      by (simp add: smob_free_def)
    obtain r1 s1 where c: "scm_x_free_gc_x (Ref a) s = (r1, s1)"
      by (cases "scm_x_free_gc_x (Ref a) s")
    with f have "s' = s \<or> s' = s1"
      by (auto simp: xgc_free_def Let_def split: if_splits sum.splits)
    with free_gc_step [OF inv c] same show ?thesis by blast
  next
    case Free_cell
    with r have "s' = s" by (simp add: smob_free_def)
    then show ?thesis by (rule same)
  next
    case (Xscreen sc)
    with r have "s' = s" by (simp add: smob_free_def)
    then show ?thesis by (rule same)
  next
    case Other_cell
    with r have "s' = s" by (simp add: smob_free_def)
    then show ?thesis by (rule same)
  qed
qed

lemma sweep_inv_free_cell:
  assumes "sweep_inv L s"
  shows "sweep_inv L (s\<lparr>heap := (heap s)[a := Free_cell]\<rparr>)"
proof -
  have "\<not> is_open_display Free_cell"
    by (simp add: is_open_display_def)
  from opens_update_closed [OF _ this, of "heap s" a] assms show ?thesis
    by (auto simp: sweep_inv_def open_displays_def)
qed

lemma gc_sweep_native:
  "sweep_inv L s \<Longrightarrow>
     \<exists>new L'. calls (snd (gc_sweep as s)) = calls s @ new \<and> native_run L new = Some L'"
proof (induction as arbitrary: s L)
  case Nil
  then show ?case by simp
next
  case (Cons a as)
  obtain r s1 where f: "smob_free a s = (r, s1)"
    by (cases "smob_free a s")
  from smob_free_step [OF Cons.prems f] obtain cs L1 where
    cs: "calls s1 = calls s @ cs" "native_run L cs = Some L1" and inv1: "sweep_inv L1 s1"
    by blast
  show ?case
  proof (cases r)
    case (Inl e)
    with f cs show ?thesis by simp
  next
    case (Inr v)
    let ?s2 = "s1\<lparr>heap := (heap s1)[a := Free_cell]\<rparr>"
    from Cons.IH [OF sweep_inv_free_cell [OF inv1, of a]] obtain new L2 where
      n: "calls (snd (gc_sweep as ?s2)) = calls ?s2 @ new" "native_run L1 new = Some L2"
      by blast
    from Inr f n cs have "calls (snd (gc_sweep (a # as) s)) = calls s @ (cs @ new) \<and>
        native_run L (cs @ new) = Some L2"
      by (simp add: native_run_append)
    then show ?thesis by blast
  qed
qed

lemmas sweep_eval =
  smob_free_def xdisplay_free_def xwindow_free_def xgc_free_def
  scm_x_close_display_x_def scm_x_destroy_window_x_def scm_x_free_gc_x_def
  valid_dsp_def valid_win_def valid_gc_def SCM_NIMP_def SCM_TYP16_def
  XDISPLAY_def XWINDOW_def XGC_def cell_at_def Let_def

lemma sweep_display_first:
  "calls (snd (gc_sweep [0, 1, 2, 4] state0)) = [XOpenDisplay None 7, XCloseDisplay 7]"
  by (simp add: sweep_eval state0_def heap0_def)

lemma sweep_display_last:
  "calls (snd (gc_sweep [1, 2, 4, 0] state0)) =
     [XOpenDisplay None 7, XDestroyWindow 7 42, XFreeGC 7 99, XDestroyWindow 7 44,
      XCloseDisplay 7]"
  by (simp add: sweep_eval state0_def heap0_def)

lemma open_displays_state0: "open_displays state0 = [7]"
  by (simp add: open_displays_def opens_def is_open_display_def state0_def heap0_def)

text \<open>
  Claim C1. Let no two open display smobs share a native pointer. Then for every list of
  cells the collector sweeps, in whatever order, the calls of Xlib that the free hooks
  add to the log use, each at its time, a display pointer that is live: one of an open
  display smob at the start of the sweep, not yet passed to \<open>XCloseDisplay\<close>. So no
  \<open>XDestroyWindow\<close> or \<open>XFreeGC\<close> follows the \<open>XCloseDisplay\<close> of its display. The
  hooks \<open>xwindow_free\<close> and \<open>xgc_free\<close> return at once, the state unchanged, when the
  display reference of the smob is not a display smob any more.
\<close>

theorem teardown_ordering:
  "(distinct (open_displays s) \<longrightarrow>
      (\<exists>new L'. calls (snd (gc_sweep as s)) = calls s @ new \<and>
         native_run (set (open_displays s)) new = Some L')) \<and>
   (SCM_TYP16 s (w_dsp (XWINDOW s window)) \<noteq> scm_tc16_xdisplay \<longrightarrow>
      xwindow_free window s = (Inr 0, s)) \<and>
   (SCM_TYP16 s (g_dsp (XGC s gc)) \<noteq> scm_tc16_xdisplay \<longrightarrow>
      xgc_free gc s = (Inr 0, s))"
proof (intro conjI impI)
  assume "distinct (open_displays s)"
  then have "sweep_inv (set (open_displays s)) s"
    by (simp add: sweep_inv_def)
  then show "\<exists>new L'. calls (snd (gc_sweep as s)) = calls s @ new \<and>
         native_run (set (open_displays s)) new = Some L'"
    by (rule gc_sweep_native)
next
  assume "SCM_TYP16 s (w_dsp (XWINDOW s window)) \<noteq> scm_tc16_xdisplay"
  then show "xwindow_free window s = (Inr 0, s)"
    by (simp add: xwindow_free_def Let_def)
next
  assume "SCM_TYP16 s (g_dsp (XGC s gc)) \<noteq> scm_tc16_xdisplay"
  then show "xgc_free gc s = (Inr 0, s)"
    by (simp add: xgc_free_def Let_def)
qed

theorem teardown_ordering_witness:
  "distinct (open_displays state0) \<and>
   (\<exists>L'. native_run {7} [XCloseDisplay 7] = Some L') \<and>
   calls (snd (gc_sweep [0, 1, 2, 4] state0)) = [XOpenDisplay None 7, XCloseDisplay 7] \<and>
   (\<exists>L'. native_run {7}
      [XDestroyWindow 7 42, XFreeGC 7 99, XDestroyWindow 7 44, XCloseDisplay 7] = Some L') \<and>
   calls (snd (gc_sweep [1, 2, 4, 0] state0)) =
     [XOpenDisplay None 7, XDestroyWindow 7 42, XFreeGC 7 99, XDestroyWindow 7 44,
      XCloseDisplay 7]"
proof -
  have d: "distinct (open_displays state0)"
    by (simp add: open_displays_state0)
  from teardown_ordering [of state0 "[0, 1, 2, 4]"] d obtain n1 L1 where
    "calls (snd (gc_sweep [0, 1, 2, 4] state0)) = calls state0 @ n1"
    and r1: "native_run (set (open_displays state0)) n1 = Some L1"
    by blast
  then have "n1 = [XCloseDisplay 7]"
    unfolding sweep_display_first state0_fields by simp
  with r1 have a: "\<exists>L'. native_run {7} [XCloseDisplay 7] = Some L'"
    unfolding open_displays_state0 by simp
  from teardown_ordering [of state0 "[1, 2, 4, 0]"] d obtain n2 L2 where
    "calls (snd (gc_sweep [1, 2, 4, 0] state0)) = calls state0 @ n2"
    and r2: "native_run (set (open_displays state0)) n2 = Some L2"
    by blast
  then have "n2 = [XDestroyWindow 7 42, XFreeGC 7 99, XDestroyWindow 7 44, XCloseDisplay 7]"
    unfolding sweep_display_last state0_fields by simp
  with r2 have b: "\<exists>L'. native_run {7}
      [XDestroyWindow 7 42, XFreeGC 7 99, XDestroyWindow 7 44, XCloseDisplay 7] = Some L'"
    unfolding open_displays_state0 by simp
  from d a b sweep_display_first sweep_display_last show ?thesis
    by blast
qed

section \<open>Operations that check before they act\<close>

text \<open>
  When \<open>x-map-window!\<close>, \<open>x-unmap-window!\<close>, \<open>x-destroy-window!\<close>, \<open>x-free-gc!\<close> or
  \<open>x-close-display!\<close> raises an error, the state is as before: the checks come before
  every call of Xlib.
\<close>

lemma state_gating_of_checked_operations:
  "(scm_x_map_window_x x s = (Inl e, s') \<longrightarrow> s' = s) \<and>
   (scm_x_unmap_window_x x s = (Inl e, s') \<longrightarrow> s' = s) \<and>
   (scm_x_destroy_window_x x s = (Inl e, s') \<longrightarrow> s' = s) \<and>
   (scm_x_free_gc_x x s = (Inl e, s') \<longrightarrow> s' = s) \<and>
   (scm_x_close_display_x x s = (Inl e, s') \<longrightarrow> s' = s)"
  by (auto simp: scm_x_map_window_x_def scm_x_unmap_window_x_def scm_x_destroy_window_x_def
      scm_x_free_gc_x_def scm_x_close_display_x_def Let_def split: sum.splits)

section \<open>The cached default graphics context\<close>

text \<open>
  What does hold of \<open>x-default-gc\<close>: when a call returns a smob, the same call again
  returns the same smob and changes nothing, and the mark hook of the display yields that
  smob, so the collector keeps it while it keeps the display.
\<close>

lemma default_gc_cached:
  assumes r: "scm_x_default_gc X display screen s = (Inr g, s')"
  shows "scm_x_default_gc X display screen s' = (Inr g, s') \<and>
         (\<exists>display1. valid_dsp s display SCM_ARG1 XDISPLAY_STATE_OPEN ''x-default-gc'' =
            Inr display1 \<and> xdisplay_mark display1 s' = g)"
proof -
  from r obtain display1 where
    vd: "valid_dsp s display SCM_ARG1 XDISPLAY_STATE_OPEN ''x-default-gc'' = Inr display1"
    by (cases "valid_dsp s display SCM_ARG1 XDISPLAY_STATE_OPEN ''x-default-gc''")
       (auto simp: scm_x_default_gc_def)
  from valid_dsp_open [OF vd] obtain b where
    b: "display1 = Ref b" "b < length (heap s)" "is_open_display (heap s ! b)"
       "XDISPLAY s display1 = the_xdisplay (heap s ! b)"
    by blast
  then obtain d where d: "heap s ! b = Xdisplay d"
    by (cases "heap s ! b") (auto simp: is_open_display_def)
  from r vd obtain scr where
    vs: "valid_scr X s display screen SCM_ARG2 (XDISPLAY s display1) ''x-default-gc'' = Inr scr"
    by (cases "valid_scr X s display screen SCM_ARG2 (XDISPLAY s display1) ''x-default-gc''")
       (auto simp: scm_x_default_gc_def Let_def)
  show ?thesis
  proof (cases "d_gc d = SCM_BOOL_F")
    case False
    with r vd vs b d have "s' = s" "g = d_gc d"
      by (auto simp: scm_x_default_gc_def Let_def)
    with r vd b d show ?thesis
      by (simp add: xdisplay_mark_def)
  next
    case True
    let ?n = "length (heap s)"
    let ?d' = "d\<lparr>d_gc := Ref ?n\<rparr>"
    let ?gc1 = "\<lparr>g_dsp = display1, g_gc = DefaultGC X (d_dsp d) scr, g_state = XGC_STATE_DEFAULT\<rparr>"
    from True r vd vs b d have g: "g = Ref ?n"
      and s': "s' = s\<lparr>gc_mallocated := gc_mallocated s + 1,
                      heap := (heap s)[b := Xdisplay ?d'] @ [Xgc ?gc1]\<rparr>"
      by (auto simp: scm_x_default_gc_def Let_def)
    have cell: "\<And>x. x < length (heap s) \<Longrightarrow>
        cell_at s' x = (if x = b then Xdisplay ?d' else cell_at s x)"
      by (simp add: s' cell_at_def nth_append)
    have tyeq: "\<And>y. SCM_TYP16 s y \<noteq> scm_tc_free_cell \<Longrightarrow> SCM_TYP16 s y \<noteq> scm_tc_other \<Longrightarrow>
        SCM_TYP16 s' y = SCM_TYP16 s y"
    proof -
      fix y assume "SCM_TYP16 s y \<noteq> scm_tc_free_cell" "SCM_TYP16 s y \<noteq> scm_tc_other"
      then obtain x where "y = Ref x" "x < length (heap s)"
        by (cases y) (auto simp: SCM_TYP16_def cell_at_def split: if_splits)
      with cell [of x] d b(2) show "SCM_TYP16 s' y = SCM_TYP16 s y"
        by (auto simp: SCM_TYP16_def cell_at_def)
    qed
    have fld: "\<And>y. SCM_TYP16 s y \<noteq> scm_tc_free_cell \<Longrightarrow> SCM_TYP16 s y \<noteq> scm_tc_other \<Longrightarrow>
        SCM_TYP16 s y \<noteq> scm_tc16_xdisplay \<Longrightarrow>
        XSCREEN s' y = XSCREEN s y \<and> XWINDOW s' y = XWINDOW s y \<and> XGC s' y = XGC s y"
    proof -
      fix y assume "SCM_TYP16 s y \<noteq> scm_tc_free_cell" "SCM_TYP16 s y \<noteq> scm_tc_other"
        and nd: "SCM_TYP16 s y \<noteq> scm_tc16_xdisplay"
      then obtain x where x: "y = Ref x" "x < length (heap s)"
        by (cases y) (auto simp: SCM_TYP16_def cell_at_def split: if_splits)
      with nd d b(2) have "x \<noteq> b"
        by (auto simp: SCM_TYP16_def cell_at_def)
      with cell [of x] x show "XSCREEN s' y = XSCREEN s y \<and> XWINDOW s' y = XWINDOW s y \<and>
          XGC s' y = XGC s y"
        by (simp add: XSCREEN_def XWINDOW_def XGC_def)
    qed
    have dsp': "XDISPLAY s' (Ref b) = ?d'"
      using cell [of b] b(2) by (simp add: XDISPLAY_def)
    have tb: "SCM_TYP16 s' (Ref b) = scm_tc16_xdisplay" "SCM_TYP16 s (Ref b) = scm_tc16_xdisplay"
      using cell [of b] b(2) d by (simp_all add: SCM_TYP16_def cell_at_def)
    from b d have dsp: "XDISPLAY s (Ref b) = d"
      by simp
    have vd': "valid_dsp s' display SCM_ARG1 XDISPLAY_STATE_OPEN ''x-default-gc'' = Inr (Ref b)"
      using vd b(1) tyeq [of display] fld [of display] tb dsp dsp'
      by (auto simp: valid_dsp_def Let_def split: if_splits)
    have vs': "valid_scr X s' display screen SCM_ARG2 (XDISPLAY s' (Ref b)) ''x-default-gc'' =
        Inr scr"
      using vs vd b(1) tyeq [of display] fld [of display] dsp dsp'
      by (auto simp: valid_scr_def valid_dsp_def Let_def split: if_splits sum.splits)
    from vd' vs' dsp' g have "scm_x_default_gc X display screen s' = (Inr g, s')"
      by (simp add: scm_x_default_gc_def Let_def)
    moreover from dsp' g b(1) have "xdisplay_mark display1 s' = g"
      by (simp add: xdisplay_mark_def)
    ultimately show ?thesis
      using vd by blast
  qed
qed

end
